theory Spec2Isabelle
  imports Main "HOL-Library.AList"
begin

section \<open>Python values\<close>

text \<open>
  A listing is a Python dictionary from field names to values
  (\<^verbatim>\<open>Dict[str, Any]\<close>). The values that a scraped listing or a JSON snapshot holds
  are \<^verbatim>\<open>None\<close>, booleans, integers, strings, lists and dictionaries. A dictionary is an
  association list: the order of its entries is the insertion order of the Python
  dictionary. Floating-point numbers are not part of the model. Strings are lists of
  8-bit characters and are read as ASCII text.
\<close>

datatype pyval =
    PNone
  | PBool bool
  | PInt int
  | PStr string
  | PList "pyval list"
  | PDict "(string \<times> pyval) list"

type_synonym pydict = "(string \<times> pyval) list"

text \<open>\<^verbatim>\<open>d.get(k)\<close>: the value stored under \<open>k\<close>, \<^verbatim>\<open>None\<close> when the key is missing.\<close>

definition dict_get :: "pydict \<Rightarrow> string \<Rightarrow> pyval" where
  "dict_get d k = (case map_of d k of None \<Rightarrow> PNone | Some v \<Rightarrow> v)"

text \<open>The truth value of a Python object, as tested by \<^verbatim>\<open>if value:\<close>.\<close>

fun truthy :: "pyval \<Rightarrow> bool" where
  "truthy PNone = False"
| "truthy (PBool b) = b"
| "truthy (PInt i) = (i \<noteq> 0)"
| "truthy (PStr s) = (s \<noteq> [])"
| "truthy (PList xs) = (xs \<noteq> [])"
| "truthy (PDict kvs) = (kvs \<noteq> [])"

text \<open>Decimal digits of a natural number and of an integer, as \<^verbatim>\<open>str\<close> prints them.\<close>

definition digit_char :: "nat \<Rightarrow> char" where
  "digit_char d = ''0123456789'' ! d"

fun str_nat :: "nat \<Rightarrow> string" where
  "str_nat n = (if n < 10 then [digit_char n] else str_nat (n div 10) @ [digit_char (n mod 10)])"

definition str_int :: "int \<Rightarrow> string" where
  "str_int i = (if i < 0 then CHR ''-'' # str_nat (nat (- i)) else str_nat (nat i))"

text \<open>
  The text that an f-string inserts for \<^verbatim>\<open>{value}\<close>, that is \<^verbatim>\<open>str(value)\<close>. The
  printed form of a list or of a dictionary is the interpreter's \<^verbatim>\<open>repr\<close> of a
  container; it is the parameter \<open>repr_of\<close>.
\<close>

fun py_str :: "(pyval \<Rightarrow> string) \<Rightarrow> pyval \<Rightarrow> string" where
  "py_str repr_of PNone = ''None''"
| "py_str repr_of (PBool b) = (if b then ''True'' else ''False'')"
| "py_str repr_of (PInt i) = str_int i"
| "py_str repr_of (PStr s) = s"
| "py_str repr_of (PList xs) = repr_of (PList xs)"
| "py_str repr_of (PDict kvs) = repr_of (PDict kvs)"

section \<open>Identity keys: \<^verbatim>\<open>utils_filters.py\<close>\<close>

text \<open>
  \<^verbatim>\<open>_build_id_key(listing, id_fields)\<close>: the loop over the identity fields returns
  \<^verbatim>\<open>f"{field}:{value}"\<close> at the first field with a truthy value, \<^verbatim>\<open>None\<close> after
  the loop.
\<close>

fun build_id_key :: "(pyval \<Rightarrow> string) \<Rightarrow> pydict \<Rightarrow> string list \<Rightarrow> string option" where
  "build_id_key repr_of listing [] = None"
| "build_id_key repr_of listing (field # id_fields) =
     (let v = dict_get listing field in
      if truthy v then Some (field @ '':'' @ py_str repr_of v)
      else build_id_key repr_of listing id_fields)"

definition default_id_fields :: "string list" where
  "default_id_fields = [''uprn'', ''url'']"

text \<open>
  \<^verbatim>\<open>deduplicate_listings\<close>: the loop carries the set \<open>seen\<close> of keys and the list
  \<open>unique\<close>, to which it appends.
\<close>

fun dedup_loop ::
  "(pyval \<Rightarrow> string) \<Rightarrow> string list \<Rightarrow> pydict list \<Rightarrow> string set \<Rightarrow> pydict list \<Rightarrow> pydict list" where
  "dedup_loop repr_of id_fields [] seen unique = unique"
| "dedup_loop repr_of id_fields (listing # listings) seen unique =
     (case build_id_key repr_of listing id_fields of
        None \<Rightarrow> dedup_loop repr_of id_fields listings seen (unique @ [listing])
      | Some key \<Rightarrow>
          if key \<in> seen then dedup_loop repr_of id_fields listings seen unique
          else dedup_loop repr_of id_fields listings (insert key seen) (unique @ [listing]))"

definition deduplicate_listings ::
  "(pyval \<Rightarrow> string) \<Rightarrow> pydict list \<Rightarrow> string list \<Rightarrow> pydict list" where
  "deduplicate_listings repr_of listings id_fields = dedup_loop repr_of id_fields listings {} []"

text \<open>
  \<^verbatim>\<open>compute_deltas\<close>. An index is a Python dictionary from keys to listings:
  assigning to a key that is already there replaces the value and keeps the position,
  assigning to a new key appends, which is \<^const>\<open>AList.update\<close>. The test
  \<^verbatim>\<open>if key:\<close> is false for \<^verbatim>\<open>None\<close> and for the empty string.
\<close>

fun build_index ::
  "(pyval \<Rightarrow> string) \<Rightarrow> string list \<Rightarrow> pydict list \<Rightarrow> (string \<times> pydict) list \<Rightarrow> (string \<times> pydict) list" where
  "build_index repr_of id_fields [] index = index"
| "build_index repr_of id_fields (listing # listings) index =
     (case build_id_key repr_of listing id_fields of
        None \<Rightarrow> build_index repr_of id_fields listings index
      | Some key \<Rightarrow>
          if key \<noteq> [] then build_index repr_of id_fields listings (AList.update key listing index)
          else build_index repr_of id_fields listings index)"

definition not_in_index :: "(string \<times> pydict) list \<Rightarrow> (string \<times> pydict) list \<Rightarrow> pydict list" where
  "not_in_index index other =
     map snd (filter (\<lambda>(key, listing). map_of other key = None) index)"

definition compute_deltas ::
  "(pyval \<Rightarrow> string) \<Rightarrow> pydict list \<Rightarrow> pydict list \<Rightarrow> string list \<Rightarrow> pydict list \<times> pydict list" where
  "compute_deltas repr_of current previous id_fields =
     (let prev_index = build_index repr_of id_fields previous [];
          curr_index = build_index repr_of id_fields current [];
          new_listings = not_in_index curr_index prev_index;
          delisted_listings = not_in_index prev_index curr_index
      in (new_listings, delisted_listings))"

text \<open>
  \<^verbatim>\<open>load_snapshot\<close>. A call of the standard library either raises or returns.
  The file system answers \<^verbatim>\<open>path.exists()\<close> and gives the text of a file, or raises
  while opening or reading it; \<^verbatim>\<open>json.load\<close> is the parameter \<open>json_loads\<close>, which
  raises on text that is not JSON. Every exception raised inside the \<^verbatim>\<open>try\<close> block is
  caught there and the function returns the empty list.
\<close>

datatype 'a outcome = Raises | Returns 'a




section \<open>Strings\<close>

text \<open>
  The string methods that the scraper calls, on ASCII text: \<^verbatim>\<open>isdigit\<close>, \<^verbatim>\<open>upper\<close>,
  \<^verbatim>\<open>lower\<close>, \<^verbatim>\<open>strip\<close>, \<^verbatim>\<open>startswith\<close> and the substring test \<^verbatim>\<open>in\<close>.
  Python's whitespace among the ASCII characters is the tab, the line feed, the vertical
  tab, the form feed, the carriage return, the four separators 28 to 31 and the space.
\<close>

definition ascii_uppercase :: string where
  "ascii_uppercase = ''ABCDEFGHIJKLMNOPQRSTUVWXYZ''"

definition ascii_lowercase :: string where
  "ascii_lowercase = ''abcdefghijklmnopqrstuvwxyz''"

definition ascii_digits :: string where
  "ascii_digits = ''0123456789''"

definition ascii_whitespace :: string where
  "ascii_whitespace =
     [CHR 0x09, CHR 0x0A, CHR 0x0B, CHR 0x0C, CHR 0x0D, CHR 0x1C, CHR 0x1D, CHR 0x1E, CHR 0x1F, CHR '' '']"

definition is_upper :: "char \<Rightarrow> bool" where
  "is_upper c \<longleftrightarrow> c \<in> set ascii_uppercase"

definition is_lower :: "char \<Rightarrow> bool" where
  "is_lower c \<longleftrightarrow> c \<in> set ascii_lowercase"

definition is_digit :: "char \<Rightarrow> bool" where
  "is_digit c \<longleftrightarrow> c \<in> set ascii_digits"

definition is_space :: "char \<Rightarrow> bool" where
  "is_space c \<longleftrightarrow> c \<in> set ascii_whitespace"

text \<open>A word character of a regular expression (\<^verbatim>\<open>\w\<close>).\<close>

definition is_word :: "char \<Rightarrow> bool" where
  "is_word c \<longleftrightarrow> is_upper c \<or> is_lower c \<or> is_digit c \<or> c = CHR ''_''"

definition upper_char :: "char \<Rightarrow> char" where
  "upper_char c = (case map_of (zip ascii_lowercase ascii_uppercase) c of None \<Rightarrow> c | Some u \<Rightarrow> u)"

definition lower_char :: "char \<Rightarrow> char" where
  "lower_char c = (case map_of (zip ascii_uppercase ascii_lowercase) c of None \<Rightarrow> c | Some l \<Rightarrow> l)"

definition py_upper :: "string \<Rightarrow> string" where
  "py_upper s = map upper_char s"

definition py_lower :: "string \<Rightarrow> string" where
  "py_lower s = map lower_char s"

definition py_strip :: "string \<Rightarrow> string" where
  "py_strip s = rev (dropWhile is_space (rev (dropWhile is_space s)))"

definition startswith :: "string \<Rightarrow> string \<Rightarrow> bool" where
  "startswith s p \<longleftrightarrow> take (length p) s = p"

text \<open>\<^verbatim>\<open>needle in haystack\<close>.\<close>

fun contains :: "string \<Rightarrow> string \<Rightarrow> bool" where
  "contains needle [] = (needle = [])"
| "contains needle (c # cs) = (startswith (c # cs) needle \<or> contains needle cs)"

text \<open>\<^verbatim>\<open>int(digits)\<close> on a string of ASCII digits.\<close>

definition digit_value :: "char \<Rightarrow> int" where
  "digit_value c = int (of_char c) - 48"

definition int_of_digits :: "string \<Rightarrow> int" where
  "int_of_digits ds = foldl (\<lambda>acc c. 10 * acc + digit_value c) 0 ds"

section \<open>Regular expressions\<close>

text \<open>
  \<^verbatim>\<open>re.search\<close> on the patterns of the scraper: a pattern is a sequence of items, each
  a word boundary \<^verbatim>\<open>\b\<close> or a greedy repetition of a character class between a lower
  and an optional upper bound. The matcher tries the longest repetition first and backs
  off one character at a time; the search tries every start position from the left and
  returns the text of the first match. The matcher is given the character before the
  position (for \<^verbatim>\<open>\b\<close>) and the rest of the text, and returns the length of the match.
\<close>

datatype re_item = Boundary | Rep "char \<Rightarrow> bool" nat "nat option"

definition at_boundary :: "char option \<Rightarrow> string \<Rightarrow> bool" where
  "at_boundary prev rest \<longleftrightarrow>
     (case prev of None \<Rightarrow> False | Some c \<Rightarrow> is_word c) \<noteq>
     (case rest of [] \<Rightarrow> False | c # cs \<Rightarrow> is_word c)"

fun first_some :: "'a option list \<Rightarrow> 'a option" where
  "first_some [] = None"
| "first_some (None # xs) = first_some xs"
| "first_some (Some x # xs) = Some x"

definition prev_after :: "char option \<Rightarrow> string \<Rightarrow> nat \<Rightarrow> char option" where
  "prev_after prev rest k = (if k = 0 then prev else Some (rest ! (k - 1)))"

fun match_seq :: "re_item list \<Rightarrow> char option \<Rightarrow> string \<Rightarrow> nat option" where
  "match_seq [] prev rest = Some 0"
| "match_seq (Boundary # items) prev rest =
     (if at_boundary prev rest then match_seq items prev rest else None)"
| "match_seq (Rep cls lo hi # items) prev rest =
     (let n = length (takeWhile cls rest);
          kmax = (case hi of None \<Rightarrow> n | Some h \<Rightarrow> min h n)
      in first_some
           (map (\<lambda>k. map_option (\<lambda>r. k + r) (match_seq items (prev_after prev rest k) (drop k rest)))
                (rev [lo..<Suc kmax])))"

fun re_search :: "re_item list \<Rightarrow> char option \<Rightarrow> string \<Rightarrow> string option" where
  "re_search items prev [] =
     (case match_seq items prev [] of None \<Rightarrow> None | Some n \<Rightarrow> Some [])"
| "re_search items prev (c # cs) =
     (case match_seq items prev (c # cs) of
        None \<Rightarrow> re_search items (Some c) cs
      | Some n \<Rightarrow> Some (take n (c # cs)))"

text \<open>The pattern \<^verbatim>\<open>\b[A-Z]{1,2}\d{1,2}[A-Z]?\s*\d[A-Z]{2}\b\<close> of \<^verbatim>\<open>_extract_postcode\<close>.\<close>

definition postcode_pattern :: "re_item list" where
  "postcode_pattern =
     [Boundary, Rep is_upper 1 (Some 2), Rep is_digit 1 (Some 2), Rep is_upper 0 (Some 1),
      Rep is_space 0 None, Rep is_digit 1 (Some 1), Rep is_upper 2 (Some 2), Boundary]"

definition extract_postcode :: "string \<Rightarrow> string option" where
  "extract_postcode text =
     (if text = [] then None
      else case re_search postcode_pattern None (py_upper text) of
             None \<Rightarrow> None
           | Some m \<Rightarrow> Some (py_strip m))"

section \<open>The scraper: \<^verbatim>\<open>zoopla_parser.py\<close>\<close>

text \<open>The dataclass \<^verbatim>\<open>PropertyListing\<close>. Coordinates are the pair of latitude and longitude.\<close>

record property_listing =
  title :: string
  uprn :: "string option"
  address :: "string option"
  epc :: "string option"
  epcRating :: "string option"
  bedrooms :: "int option"
  bathrooms :: "int option"
  livingroom :: "int option"
  price :: "string option"
  description :: "string option"
  coordinates :: "(string \<times> string) option"
  category :: "string option"
  type :: "string option"
  agent :: "string option"
  agentPhone :: "string option"
  images :: "string list"
  priceHistory :: "pydict list"
  pointsOfInterest :: "pydict list"
  propertyType :: "string option"
  postalCode :: "string option"
  features :: "string list"
  url :: "string option"

definition opt_str :: "string option \<Rightarrow> pyval" where
  "opt_str v = (case v of None \<Rightarrow> PNone | Some s \<Rightarrow> PStr s)"

definition opt_int :: "int option \<Rightarrow> pyval" where
  "opt_int v = (case v of None \<Rightarrow> PNone | Some i \<Rightarrow> PInt i)"

text \<open>\<^verbatim>\<open>dataclasses.asdict\<close>: the fields in the order of their declaration.\<close>

definition asdict :: "property_listing \<Rightarrow> pydict" where
  "asdict l =
     [(''title'', PStr (title l)),
      (''uprn'', opt_str (uprn l)),
      (''address'', opt_str (address l)),
      (''epc'', opt_str (epc l)),
      (''epcRating'', opt_str (epcRating l)),
      (''bedrooms'', opt_int (bedrooms l)),
      (''bathrooms'', opt_int (bathrooms l)),
      (''livingroom'', opt_int (livingroom l)),
      (''price'', opt_str (price l)),
      (''description'', opt_str (description l)),
      (''coordinates'',
         (case coordinates l of
            None \<Rightarrow> PNone
          | Some (lat, lon) \<Rightarrow> PDict [(''latitude'', PStr lat), (''longitude'', PStr lon)])),
      (''category'', opt_str (category l)),
      (''type'', opt_str (type l)),
      (''agent'', opt_str (agent l)),
      (''agentPhone'', opt_str (agentPhone l)),
      (''images'', PList (map PStr (images l))),
      (''priceHistory'', PList (map PDict (priceHistory l))),
      (''pointsOfInterest'', PList (map PDict (pointsOfInterest l))),
      (''propertyType'', opt_str (propertyType l)),
      (''postalCode'', opt_str (postalCode l)),
      (''features'', PList (map PStr (features l))),
      (''url'', opt_str (url l))]"

text \<open>
  A parsed document or a tag of it, as the scraper reads it through BeautifulSoup:
  \<^item> \<open>get_text_sep\<close> is \<^verbatim>\<open>el.get_text(" ", strip=True)\<close> and \<open>get_text_strip\<close> is
    \<^verbatim>\<open>el.get_text(strip=True)\<close>;
  \<^item> \<open>get_attr\<close> is \<^verbatim>\<open>el.get(name)\<close>;
  \<^item> \<open>select\<close> is \<^verbatim>\<open>el.select(selector)\<close>, the matching tags in document order;
  \<^item> \<open>find_a_href\<close> is \<^verbatim>\<open>el.find("a", href=True)\<close> followed by \<^verbatim>\<open>["href"]\<close>: the
    \<^verbatim>\<open>href\<close> of the first link that has one, nothing when \<^verbatim>\<open>find\<close> returns \<^verbatim>\<open>None\<close>;
  \<^item> \<open>select_img_src\<close> is the list of \<^verbatim>\<open>img["src"]\<close> for \<^verbatim>\<open>img\<close> in
    \<^verbatim>\<open>el.select("img[src]")\<close>.
  A tag is true in a test whenever it is not \<^verbatim>\<open>None\<close>.
\<close>

datatype element =
  Element
    (get_text_sep: string)
    (get_text_strip: string)
    (get_attr: "string \<Rightarrow> string option")
    (select: "string \<Rightarrow> element list")
    (find_a_href: "string option")
    (select_img_src: "string list")

definition select_one :: "element \<Rightarrow> string \<Rightarrow> element option" where
  "select_one root sel = (case select root sel of [] \<Rightarrow> None | el # els \<Rightarrow> Some el)"

text \<open>An HTTP response: its status code and its body.\<close>

datatype response = Response (status_code: int) (body: string)

text \<open>
  What the scraper uses and does not define. The state \<open>'w\<close> is the network: a request
  reads it and changes it. \<open>session_get\<close> is \<^verbatim>\<open>session.get\<close> followed by the fixed delay; it
  raises a \<^verbatim>\<open>RequestException\<close> or returns a response. \<open>parse_html\<close> is
  \<^verbatim>\<open>BeautifulSoup(html, "lxml")\<close>, \<open>urljoin\<close> and \<open>urlparse_scheme\<close> are the functions of
  \<^verbatim>\<open>urllib.parse\<close>, taken as total. \<open>coordinates_from_scripts\<close> is the result of
  \<^verbatim>\<open>_extract_coordinates_from_scripts\<close>, which scans the script tags with regular
  expressions and a JSON parser and returns a latitude and a longitude, both as strings, or
  \<^verbatim>\<open>None\<close>. \<open>base_url\<close> is the attribute of the scraper.
\<close>

record 'w env =
  session_get :: "'w \<Rightarrow> string \<Rightarrow> response outcome \<times> 'w"
  parse_html :: "string \<Rightarrow> element"
  urljoin :: "string \<Rightarrow> string \<Rightarrow> string"
  urlparse_scheme :: "string \<Rightarrow> string"
  coordinates_from_scripts :: "element \<Rightarrow> (string \<times> string) option"
  base_url :: string

text \<open>
  \<^verbatim>\<open>_safe_get\<close>: \<^verbatim>\<open>raise_for_status\<close> raises an \<^verbatim>\<open>HTTPError\<close>, which is a
  \<^verbatim>\<open>RequestException\<close>, on a status from 400 to 599; every \<^verbatim>\<open>RequestException\<close> is caught
  and the result is \<^verbatim>\<open>None\<close>.
\<close>

definition safe_get :: "'w env \<Rightarrow> 'w \<Rightarrow> string \<Rightarrow> string option \<times> 'w" where
  "safe_get E w u =
     (case session_get E w u of
        (Raises, w') \<Rightarrow> (None, w')
      | (Returns resp, w') \<Rightarrow>
          if 400 \<le> status_code resp \<and> status_code resp < 600 then (None, w')
          else (Some (body resp), w'))"

text \<open>\<^verbatim>\<open>_find_listing_cards\<close>: the tags of the first selector that selects any.\<close>

fun first_selected :: "element \<Rightarrow> string list \<Rightarrow> element list" where
  "first_selected soup [] = []"
| "first_selected soup (sel # selectors) =
     (let cards = select soup sel in
      if cards \<noteq> [] then cards else first_selected soup selectors)"

definition find_listing_cards :: "element \<Rightarrow> element list" where
  "find_listing_cards soup =
     first_selected soup
       [''article[data-testid*=listing]'', ''div[data-testid*=listing]'',
        ''div[class*=ListingCard]'', ''article'']"

text \<open>\<^verbatim>\<open>_extract_text\<close>: the text of the first selector whose first tag has text.\<close>

fun extract_text :: "element \<Rightarrow> string list \<Rightarrow> string option" where
  "extract_text root [] = None"
| "extract_text root (sel # selectors) =
     (case select_one root sel of
        None \<Rightarrow> extract_text root selectors
      | Some el \<Rightarrow>
          (let t = get_text_sep el in
           if t \<noteq> [] then Some t else extract_text root selectors))"

text \<open>
  \<^verbatim>\<open>_extract_int_from_text\<close>: the digits of the text, read as one integer. On ASCII
  digits \<^verbatim>\<open>int\<close> does not raise.
\<close>

definition extract_int_from_text :: "element \<Rightarrow> string list \<Rightarrow> int option" where
  "extract_int_from_text root selectors =
     (case extract_text root selectors of
        None \<Rightarrow> None
      | Some t \<Rightarrow>
          if t = [] then None
          else (let digits = filter is_digit t in
                if digits = [] then None else Some (int_of_digits digits)))"

text \<open>\<^verbatim>\<open>_normalize_url\<close>.\<close>

definition normalize_url :: "'w env \<Rightarrow> string \<Rightarrow> string \<Rightarrow> string" where
  "normalize_url E href base =
     (let href1 = py_strip href;
          href2 = (if startswith href1 ''//'' then urlparse_scheme E base @ '':'' @ href1 else href1)
      in urljoin E base href2)"

text \<open>The selector lists of \<^verbatim>\<open>_parse_listing_card\<close>, in the order of the source.\<close>

definition title_selectors :: "string list" where
  "title_selectors = [''h2[data-testid*=listing-title]'', ''h2'', ''h3'']"

definition price_selectors :: "string list" where
  "price_selectors =
     [''p[data-testid*=listing-price]'', ''div[data-testid*=listing-price]'', ''span[class*=price]'']"

definition address_selectors :: "string list" where
  "address_selectors =
     [''p[data-testid*=listing-description]'', ''address'', ''span[class*=address]'']"

definition category_selectors :: "string list" where
  "category_selectors = [''span[data-testid*=badge]'', ''span[class*=category]'']"

definition property_type_selectors :: "string list" where
  "property_type_selectors =
     [''span[class*=property-type]'', ''span[data-testid*=property-type]'']"

definition agent_selectors :: "string list" where
  "agent_selectors = [''p[data-testid*=listing-agent]'', ''span[class*=agent]'']"

definition bedrooms_selectors :: "string list" where
  "bedrooms_selectors = [''li[data-testid*=bed]'', ''span[class*=bedrooms]'']"

definition bathrooms_selectors :: "string list" where
  "bathrooms_selectors = [''li[data-testid*=bath]'', ''span[class*=bathrooms]'']"

text \<open>The category that the text of a badge stands for.\<close>

definition category_of :: "string option \<Rightarrow> string option" where
  "category_of category_text =
     (case category_text of
        None \<Rightarrow> None
      | Some t \<Rightarrow>
          if t = [] then None
          else (let lowered = py_lower t in
                if contains ''rent'' lowered then Some ''rent''
                else if contains ''sale'' lowered \<or> contains ''buy'' lowered then Some ''sale''
                else None))"

text \<open>
  \<^verbatim>\<open>_parse_listing_card\<close>. The title is \<^verbatim>\<open>title or ""\<close>: the text that was found, and
  the empty string when none was.
\<close>

definition parse_listing_card :: "'w env \<Rightarrow> element \<Rightarrow> string \<Rightarrow> property_listing" where
  "parse_listing_card E card' base_page_url =
     (let title = extract_text card' title_selectors;
          price = extract_text card' price_selectors;
          address = extract_text card' address_selectors;
          url = (case find_a_href card' of
                   None \<Rightarrow> None
                 | Some href \<Rightarrow> Some (normalize_url E href base_page_url));
          category = category_of (extract_text card' category_selectors);
          property_type =
            (case extract_text card' property_type_selectors of
               None \<Rightarrow> None
             | Some t \<Rightarrow> if t = [] then None else Some (py_strip t));
          type' = property_type;
          agent = extract_text card' agent_selectors;
          bedrooms = extract_int_from_text card' bedrooms_selectors;
          bathrooms = extract_int_from_text card' bathrooms_selectors
      in \<lparr>title = (case title of None \<Rightarrow> [] | Some t \<Rightarrow> if t \<noteq> [] then t else []),
          uprn = None,
          address = address,
          epc = None,
          epcRating = None,
          bedrooms = bedrooms,
          bathrooms = bathrooms,
          livingroom = None,
          price = price,
          description = None,
          coordinates = None,
          category = category,
          type = type',
          agent = agent,
          agentPhone = None,
          images = [],
          priceHistory = [],
          pointsOfInterest = [],
          propertyType = property_type,
          postalCode = None,
          features = [],
          url = url\<rparr>)"

text \<open>The selector lists of \<^verbatim>\<open>_enrich_from_detail_page\<close>.\<close>

definition description_selectors :: "string list" where
  "description_selectors =
     [''p[data-testid*=listing-description]'', ''div[data-testid*=description] p'',
      ''div[class*=description] p'']"

definition epc_rating_selectors :: "string list" where
  "epc_rating_selectors = [''span[data-testid*=epc-rating]'', ''span[class*=epc-rating]'']"

definition agent_phone_selectors :: "string list" where
  "agent_phone_selectors = [''a[href^='tel:']'', ''span[class*=agent-phone]'']"

definition detail_address_selectors :: "string list" where
  "detail_address_selectors = [''address'', ''p[data-testid*=address]'']"

definition features_selectors :: "string list" where
  "features_selectors = [''ul[data-testid*=features] li'', ''ul[class*=features] li'']"

text \<open>
  Appending each text that is not empty and not yet in the list: the loop that collects
  the features, and \<^verbatim>\<open>list(dict.fromkeys(images))\<close>, which keeps the first occurrence of
  each image.
\<close>

definition append_new :: "string list \<Rightarrow> string list \<Rightarrow> string list" where
  "append_new acc texts =
     foldl (\<lambda>seen t. if t \<noteq> [] \<and> t \<notin> set seen then seen @ [t] else seen) acc texts"

definition fromkeys :: "string list \<Rightarrow> string list" where
  "fromkeys xs = foldl (\<lambda>seen x. if x \<in> set seen then seen else seen @ [x]) [] xs"

text \<open>
  A field that is assigned only when the extracted text is true: \<^verbatim>\<open>if v: field = v.strip()\<close>.
\<close>

definition stripped_or :: "string option \<Rightarrow> string option \<Rightarrow> string option" where
  "stripped_or old v =
     (case v of None \<Rightarrow> old | Some t \<Rightarrow> if t \<noteq> [] then Some (py_strip t) else old)"

text \<open>\<^verbatim>\<open>_enrich_from_detail_page\<close>: the assignments to the listing, in the order of the source.\<close>

definition enrich_from_detail_page ::
  "'w env \<Rightarrow> property_listing \<Rightarrow> element \<Rightarrow> property_listing" where
  "enrich_from_detail_page E listing soup =
     (let l1 = listing\<lparr>description := stripped_or (description listing)
                  (extract_text soup description_selectors)\<rparr>;
          l2 = l1\<lparr>epcRating := stripped_or (epcRating l1) (extract_text soup epc_rating_selectors)\<rparr>;
          l3 = (case select_one soup ''img[src*='epc']'' of
                  None \<Rightarrow> l2
                | Some epc_img \<Rightarrow>
                    (case get_attr epc_img ''src'' of
                       None \<Rightarrow> l2
                     | Some src \<Rightarrow>
                         if src \<noteq> [] then l2\<lparr>epc := Some (normalize_url E src (base_url E))\<rparr>
                         else l2));
          l4 = l3\<lparr>agentPhone := stripped_or (agentPhone l3)
                  (extract_text soup agent_phone_selectors)\<rparr>;
          address_text = extract_text soup detail_address_selectors;
          l5 = l4\<lparr>address := stripped_or (address l4) address_text\<rparr>;
          l6 = l5\<lparr>postalCode := extract_postcode
                  (case address_text of None \<Rightarrow> [] | Some t \<Rightarrow> if t \<noteq> [] then t else [])\<rparr>;
          l7 = l6\<lparr>features := append_new []
                  (concat (map (\<lambda>sel. map get_text_strip (select soup sel)) features_selectors))\<rparr>;
          l8 = l7\<lparr>images := fromkeys
                  (map (\<lambda>src. normalize_url E src (base_url E))
                     (filter (\<lambda>src. contains ''lid.zoocdn.com'' src \<or> contains ''zoocdn.com'' src)
                        (select_img_src soup)))\<rparr>
      in case coordinates_from_scripts E soup of
           None \<Rightarrow> l8
         | Some coords \<Rightarrow> l8\<lparr>coordinates := Some coords\<rparr>)"

text \<open>
  The loop of \<^verbatim>\<open>scrape_search\<close> over the cards, with the network state and the list
  \<open>listings\<close>, to which it appends. The loop stops when the list has reached
  \<open>max_results\<close>. A card without a URL is appended as it is. Otherwise the detail page is
  requested, and the listing is enriched when the request returned a page that is not
  empty.
\<close>

fun scrape_cards ::
  "'w env \<Rightarrow> string \<Rightarrow> int option \<Rightarrow> element list \<Rightarrow> 'w \<Rightarrow> pydict list \<Rightarrow> pydict list \<times> 'w" where
  "scrape_cards E search_url max_results [] w listings = (listings, w)"
| "scrape_cards E search_url max_results (card' # cards) w listings =
     (if (case max_results of None \<Rightarrow> False | Some n \<Rightarrow> n \<le> int (length listings))
      then (listings, w)
      else
        (let summary = parse_listing_card E card' search_url in
         case url summary of
           None \<Rightarrow> scrape_cards E search_url max_results cards w (listings @ [asdict summary])
         | Some u \<Rightarrow>
             if u = [] then
               scrape_cards E search_url max_results cards w (listings @ [asdict summary])
             else
               (case safe_get E w u of
                  (None, w') \<Rightarrow>
                    scrape_cards E search_url max_results cards w' (listings @ [asdict summary])
                | (Some detail_html, w') \<Rightarrow>
                    if detail_html \<noteq> [] then
                      scrape_cards E search_url max_results cards w'
                        (listings @
                           [asdict (enrich_from_detail_page E summary (parse_html E detail_html))])
                    else
                      scrape_cards E search_url max_results cards w'
                        (listings @ [asdict summary]))))"

text \<open>\<^verbatim>\<open>scrape_search\<close>: no listings when the search page cannot be fetched.\<close>

definition scrape_search ::
  "'w env \<Rightarrow> 'w \<Rightarrow> string \<Rightarrow> int option \<Rightarrow> pydict list \<times> 'w" where
  "scrape_search E w search_url max_results =
     (case safe_get E w search_url of
        (None, w') \<Rightarrow> ([], w')
      | (Some html, w') \<Rightarrow>
          scrape_cards E search_url max_results (find_listing_cards (parse_html E html)) w' [])"

text \<open>
  One pass through the body of the loop: the dictionary that the card adds to the list,
  and the network state after it.
\<close>

definition process_card :: "'w env \<Rightarrow> string \<Rightarrow> element \<Rightarrow> 'w \<Rightarrow> pydict \<times> 'w" where
  "process_card E search_url c w =
     (let summary = parse_listing_card E c search_url in
      case url summary of
        None \<Rightarrow> (asdict summary, w)
      | Some u \<Rightarrow>
          if u = [] then (asdict summary, w)
          else
            (case safe_get E w u of
               (None, w') \<Rightarrow> (asdict summary, w')
             | (Some detail_html, w') \<Rightarrow>
                 if detail_html \<noteq> [] then
                   (asdict (enrich_from_detail_page E summary (parse_html E detail_html)), w')
                 else (asdict summary, w')))"

text \<open>
  The test that stops the loop:
  \<^verbatim>\<open>max_results is not None and len(listings) >= max_results\<close>.
\<close>

definition cap_reached :: "int option \<Rightarrow> pydict list \<Rightarrow> bool" where
  "cap_reached max_results listings =
     (case max_results of None \<Rightarrow> False | Some n \<Rightarrow> n \<le> int (length listings))"

section \<open>Examples\<close>




text \<open>
  A search page with one card, which has a title and a link. The search page can be
  fetched; every other request fails. The last tag is one in which nothing is found.
\<close>

definition example_title_tag :: element where
  "example_title_tag = Element ''2 bed flat'' ''2 bed flat'' (\<lambda>n. None) (\<lambda>sel. []) None []"

definition example_card :: element where
  "example_card =
     Element ''2 bed flat'' ''2 bed flat'' (\<lambda>n. None)
       (\<lambda>sel. if sel = ''h2'' then [example_title_tag] else []) (Some ''/d/1'') []"

definition example_page :: element where
  "example_page =
     Element [] [] (\<lambda>n. None) (\<lambda>sel. if sel = ''article'' then [example_card] else []) None []"

definition example_env :: "nat env" where
  "example_env =
     \<lparr>session_get =
        (\<lambda>w u. (if u = ''https://z/s'' then Returns (Response 200 ''page'') else Raises, Suc w)),
      parse_html = (\<lambda>h. example_page),
      urljoin = (\<lambda>b h. ''https://z'' @ h),
      urlparse_scheme = (\<lambda>b. ''https''),
      coordinates_from_scripts = (\<lambda>d. None),
      base_url = ''https://z''\<rparr>"


section \<open>Specification of the patterns\<close>






section \<open>Properties of deduplication\<close>

lemma dedup_loop_acc:
  "dedup_loop r f xs S acc = acc @ dedup_loop r f xs S []"
proof (induction xs arbitrary: S acc)
  case Nil
  show ?case by simp
next
  case (Cons x xs)
  show ?case
  proof (cases "build_id_key r x f")
    case None
    then show ?thesis
      using Cons.IH [of S "acc @ [x]"] Cons.IH [of S "[x]"] by simp
  next
    case (Some k)
    then show ?thesis
      using Cons.IH [of S acc] Cons.IH [of "insert k S" "acc @ [x]"]
        Cons.IH [of "insert k S" "[x]"] by simp
  qed
qed

lemma dedup_loop_append:
  "dedup_loop r f (xs @ ys) S acc =
     dedup_loop r f ys (S \<union> {k. \<exists>x \<in> set xs. build_id_key r x f = Some k})
       (dedup_loop r f xs S acc)"
proof (induction xs arbitrary: S acc)
  case Nil
  show ?case by simp
next
  case (Cons x xs)
  let ?K = "\<lambda>ys. {k. \<exists>y \<in> set ys. build_id_key r y f = Some k}"
  show ?case
  proof (cases "build_id_key r x f")
    case None
    then have "?K (x # xs) = ?K xs" by auto
    with None show ?thesis using Cons.IH by simp
  next
    case (Some k)
    then have "?K (x # xs) = insert k (?K xs)" by auto
    moreover have "k \<in> S \<Longrightarrow> S \<union> insert k (?K xs) = S \<union> ?K xs" by auto
    ultimately show ?thesis using Some Cons.IH by simp
  qed
qed

lemma dedup_loop_snoc:
  "dedup_loop r f (xs @ [x]) {} [] =
     dedup_loop r f xs {} [] @
       (if build_id_key r x f = None \<or> (\<forall>y \<in> set xs. build_id_key r y f \<noteq> build_id_key r x f)
        then [x] else [])"
proof -
  let ?K = "{k. \<exists>y \<in> set xs. build_id_key r y f = Some k}"
  have "dedup_loop r f (xs @ [x]) {} [] = dedup_loop r f [x] ?K (dedup_loop r f xs {} [])"
    by (simp add: dedup_loop_append)
  also have "\<dots> = dedup_loop r f xs {} [] @ dedup_loop r f [x] ?K []"
    by (rule dedup_loop_acc)
  also have "dedup_loop r f [x] ?K [] =
       (if build_id_key r x f = None \<or> (\<forall>y \<in> set xs. build_id_key r y f \<noteq> build_id_key r x f)
        then [x] else [])"
    by (cases "build_id_key r x f") auto
  finally show ?thesis .
qed

lemma dedup_loop_absorb:
  "S \<subseteq> S' \<Longrightarrow> dedup_loop r f (dedup_loop r f xs S' []) S [] = dedup_loop r f xs S' []"
proof (induction xs arbitrary: S S')
  case Nil
  show ?case by simp
next
  case (Cons x xs)
  show ?case
  proof (cases "build_id_key r x f")
    case None
    have "dedup_loop r f (x # xs) S' [] = x # dedup_loop r f xs S' []"
      using None dedup_loop_acc [of r f xs S' "[x]"] by simp
    moreover have "dedup_loop r f (x # ys) S [] = x # dedup_loop r f ys S []" for ys
      using None dedup_loop_acc [of r f ys S "[x]"] by simp
    ultimately show ?thesis using Cons.IH [OF Cons.prems] by simp
  next
    case (Some k)
    show ?thesis
    proof (cases "k \<in> S'")
      case True
      then show ?thesis using Some Cons.IH [OF Cons.prems] by simp
    next
      case False
      then have kS: "k \<notin> S" using Cons.prems by auto
      have a: "dedup_loop r f (x # xs) S' [] = x # dedup_loop r f xs (insert k S') []"
        using Some False dedup_loop_acc [of r f xs "insert k S'" "[x]"] by simp
      have b: "dedup_loop r f (x # ys) S [] = x # dedup_loop r f ys (insert k S) []" for ys
        using Some kS dedup_loop_acc [of r f ys "insert k S" "[x]"] by simp
      have "insert k S \<subseteq> insert k S'" using Cons.prems by auto
      from Cons.IH [OF this] show ?thesis by (simp only: a b)
    qed
  qed
qed

text \<open>
  Claim C2. The result of \<^const>\<open>deduplicate_listings\<close> is the input with some positions
  removed, in the order of the input: position \<open>i\<close> stays exactly when the listing there has
  no identity key, or no listing at an earlier position \<open>j < i\<close> has the same key. Hence a
  listing is dropped exactly when its key is the key of an earlier listing, and every listing
  without a key is kept.
\<close>

theorem deduplicate_listings_first_seen:
  "deduplicate_listings r xs f =
     map (\<lambda>i. xs ! i)
       (filter (\<lambda>i. build_id_key r (xs ! i) f = None \<or>
                     (\<forall>j<i. build_id_key r (xs ! j) f \<noteq> build_id_key r (xs ! i) f))
          [0..<length xs])"
proof (induction xs rule: rev_induct)
  case Nil
  show ?case by (simp add: deduplicate_listings_def)
next
  case (snoc x xs)
  let ?keep = "\<lambda>ys i. build_id_key r (ys ! i) f = None \<or>
                 (\<forall>j<i. build_id_key r (ys ! j) f \<noteq> build_id_key r (ys ! i) f)"
  have fs: "?keep (xs @ [x]) i = ?keep xs i" if "i < length xs" for i
    using that by (simp add: nth_append)
  have m: "map (\<lambda>i. (xs @ [x]) ! i) (filter (?keep (xs @ [x])) [0..<length xs])
         = map (\<lambda>i. xs ! i) (filter (?keep xs) [0..<length xs])"
    by (rule trans [OF map_cong [OF refl] arg_cong [OF filter_cong [OF refl]]])
       (auto simp: nth_append fs)
  have l: "?keep (xs @ [x]) (length xs) \<longleftrightarrow>
       build_id_key r x f = None \<or> (\<forall>y \<in> set xs. build_id_key r y f \<noteq> build_id_key r x f)"
  proof -
    have "(\<forall>j < length xs. build_id_key r (xs ! j) f \<noteq> build_id_key r x f) \<longleftrightarrow>
          (\<forall>y \<in> set xs. build_id_key r y f \<noteq> build_id_key r x f)"
      by (metis in_set_conv_nth)
    then show ?thesis by (simp add: nth_append)
  qed
  have "deduplicate_listings r (xs @ [x]) f =
        deduplicate_listings r xs f @ (if ?keep (xs @ [x]) (length xs) then [x] else [])"
    unfolding deduplicate_listings_def l by (rule dedup_loop_snoc)
  also have "\<dots> = map (\<lambda>i. (xs @ [x]) ! i) (filter (?keep (xs @ [x])) [0..<length xs])
                @ (if ?keep (xs @ [x]) (length xs) then [x] else [])"
    by (simp only: snoc.IH m)
  also have "\<dots> = map (\<lambda>i. (xs @ [x]) ! i) (filter (?keep (xs @ [x])) [0..<length (xs @ [x])])"
    by simp
  finally show ?case .
qed

theorem deduplicate_listings_first_seen_witness:
  "deduplicate_listings (\<lambda>v. [])
     [[(''title'', PStr ''A''), (''url'', PStr ''u'')],
      [(''title'', PStr ''B''), (''url'', PStr ''u'')],
      [(''title'', PStr ''C'')],
      [(''title'', PStr ''C'')]] default_id_fields =
     [[(''title'', PStr ''A''), (''url'', PStr ''u'')],
      [(''title'', PStr ''C'')],
      [(''title'', PStr ''C'')]]"
  using deduplicate_listings_first_seen [of "\<lambda>v. []"
     "[[(''title'', PStr ''A''), (''url'', PStr ''u'')],
      [(''title'', PStr ''B''), (''url'', PStr ''u'')],
      [(''title'', PStr ''C'')],
      [(''title'', PStr ''C'')]]" default_id_fields]
  by (simp add: default_id_fields_def dict_get_def)

text \<open>
  Claim C5. \<^const>\<open>deduplicate_listings\<close> is idempotent: a second pass returns the list of
  the first pass, in the same order, and so the same set of listings.
\<close>

theorem deduplicate_listings_idempotent:
  "deduplicate_listings r (deduplicate_listings r xs f) f = deduplicate_listings r xs f \<and>
   set (deduplicate_listings r (deduplicate_listings r xs f) f) = set (deduplicate_listings r xs f)"
proof -
  have "deduplicate_listings r (deduplicate_listings r xs f) f = deduplicate_listings r xs f"
    unfolding deduplicate_listings_def by (rule dedup_loop_absorb) simp
  then show ?thesis by simp
qed

section \<open>Properties of the deltas\<close>

lemma set_update_subset: "set (AList.update k v al) \<subseteq> insert (k, v) (set al)"
  by (induction al) auto

lemma build_index_keyed:
  assumes "\<forall>(k, l) \<in> set index. build_id_key r l f = Some k"
  shows "\<forall>(k, l) \<in> set (build_index r f xs index). build_id_key r l f = Some k"
  using assms
proof (induction xs arbitrary: index)
  case Nil
  then show ?case by simp
next
  case (Cons x xs)
  show ?case
  proof (cases "build_id_key r x f")
    case None
    then show ?thesis using Cons.IH [OF Cons.prems] by simp
  next
    case (Some k)
    have "\<forall>(k', l) \<in> set (AList.update k x index). build_id_key r l f = Some k'"
      using Cons.prems Some set_update_subset [of k x index] by auto
    from Cons.IH [OF this] Cons.IH [OF Cons.prems] Some show ?thesis by simp
  qed
qed

lemma not_in_index_subset: "set (not_in_index index other) \<subseteq> snd ` set index"
  by (auto simp: not_in_index_def)

lemma keyless_not_indexed:
  assumes "build_id_key r l f = None"
  shows "l \<notin> snd ` set (build_index r f xs [])"
proof
  assume "l \<in> snd ` set (build_index r f xs [])"
  then obtain k where "(k, l) \<in> set (build_index r f xs [])" by auto
  moreover have "\<forall>(k, l) \<in> set (build_index r f xs []). build_id_key r l f = Some k"
    by (rule build_index_keyed) simp
  ultimately have "build_id_key r l f = Some k" by auto
  with assms show False by simp
qed

lemma not_in_index_self: "not_in_index index index = []"
proof -
  have "map_of index k \<noteq> None" if "(k, l) \<in> set index" for k l
    using that by (metis map_of_eq_None_iff fst_conv image_eqI)
  then show ?thesis by (auto simp: not_in_index_def filter_empty_conv)
qed

text \<open>
  Claim C3. A listing without an identity key is a value of neither index that
  \<^const>\<open>compute_deltas\<close> builds, and is a member of neither the new nor the delisted
  result, whatever the two snapshots hold.
\<close>

theorem compute_deltas_excludes_keyless:
  assumes "build_id_key r l f = None"
  shows "l \<notin> snd ` set (build_index r f current []) \<and>
         l \<notin> snd ` set (build_index r f previous []) \<and>
         l \<notin> set (fst (compute_deltas r current previous f)) \<and>
         l \<notin> set (snd (compute_deltas r current previous f))"
  using keyless_not_indexed [OF assms, of current] keyless_not_indexed [OF assms, of previous]
    not_in_index_subset [of "build_index r f current []" "build_index r f previous []"]
    not_in_index_subset [of "build_index r f previous []" "build_index r f current []"]
  by (auto simp: compute_deltas_def Let_def)

theorem compute_deltas_excludes_keyless_witness:
  "build_id_key (\<lambda>v. []) [(''title'', PStr ''C'')] default_id_fields = None \<and>
   [(''title'', PStr ''C'')] \<notin>
     set (fst (compute_deltas (\<lambda>v. [])
       [[(''title'', PStr ''C'')], [(''url'', PStr ''u'')]] [[(''url'', PStr ''w'')]]
       default_id_fields)) \<and>
   [(''title'', PStr ''C'')] \<notin>
     set (snd (compute_deltas (\<lambda>v. [])
       [[(''url'', PStr ''u'')]] [[(''title'', PStr ''C'')], [(''url'', PStr ''w'')]]
       default_id_fields))"
proof -
  have h: "build_id_key (\<lambda>v. []) [(''title'', PStr ''C'')] default_id_fields = None"
    by (simp add: default_id_fields_def dict_get_def)
  show ?thesis
    using h
      compute_deltas_excludes_keyless [OF h,
        of "[[(''title'', PStr ''C'')], [(''url'', PStr ''u'')]]" "[[(''url'', PStr ''w'')]]"]
      compute_deltas_excludes_keyless [OF h,
        of "[[(''url'', PStr ''u'')]]" "[[(''title'', PStr ''C'')], [(''url'', PStr ''w'')]]"]
    by blast
qed

text \<open>
  Claim C4. When every listing of \<open>X\<close> has an identity key, the deltas of \<open>X\<close> against
  itself are an empty new list and an empty delisted list.
\<close>

theorem compute_deltas_same:
  assumes "\<forall>x \<in> set xs. build_id_key r x f \<noteq> None"
  shows "compute_deltas r xs xs f = ([], [])"
  by (simp add: compute_deltas_def not_in_index_self)

theorem compute_deltas_same_witness:
  "list_all (\<lambda>x. build_id_key (\<lambda>v. []) x default_id_fields \<noteq> None)
     [[(''title'', PStr ''A''), (''url'', PStr ''u'')], [(''url'', PStr ''w'')]] \<and>
   compute_deltas (\<lambda>v. [])
     [[(''title'', PStr ''A''), (''url'', PStr ''u'')], [(''url'', PStr ''w'')]]
     [[(''title'', PStr ''A''), (''url'', PStr ''u'')], [(''url'', PStr ''w'')]]
     default_id_fields = ([], [])"
proof -
  have h: "\<forall>x \<in> set [[(''title'', PStr ''A''), (''url'', PStr ''u'')], [(''url'', PStr ''w'')]].
      build_id_key (\<lambda>v. []) x default_id_fields \<noteq> None"
    by (simp add: default_id_fields_def dict_get_def)
  show ?thesis using h compute_deltas_same [OF h] by (simp only: list_all_iff simp_thms)
qed

section \<open>Properties of the identity key\<close>



section \<open>Properties of the snapshot store\<close>




section \<open>Properties of the postcode extraction\<close>
























section \<open>Properties of the scraper\<close>

lemma scrape_cards_step:
  "scrape_cards E s m (c # cards) w acc =
     (if cap_reached m acc then (acc, w)
      else case process_card E s c w of (d, w') \<Rightarrow> scrape_cards E s m cards w' (acc @ [d]))"
  by (simp add: process_card_def cap_reached_def Let_def split: option.splits prod.splits)

lemma scrape_cards_stop:
  "cap_reached m acc \<Longrightarrow> scrape_cards E s m cards w acc = (acc, w)"
  by (cases cards) (simp_all add: scrape_cards_step del: scrape_cards.simps(2))




lemma card_phase_fields:
  "uprn (parse_listing_card E c s) = None"
  "description (parse_listing_card E c s) = None"
  "epc (parse_listing_card E c s) = None"
  "epcRating (parse_listing_card E c s) = None"
  "agentPhone (parse_listing_card E c s) = None"
  "coordinates (parse_listing_card E c s) = None"
  "postalCode (parse_listing_card E c s) = None"
  "livingroom (parse_listing_card E c s) = None"
  "features (parse_listing_card E c s) = []"
  "images (parse_listing_card E c s) = []"
  "priceHistory (parse_listing_card E c s) = []"
  "pointsOfInterest (parse_listing_card E c s) = []"
  by (simp_all add: parse_listing_card_def Let_def)

lemma dict_get_asdict:
  "dict_get (asdict l) ''uprn'' = opt_str (uprn l)"
  "dict_get (asdict l) ''url'' = opt_str (url l)"
  "dict_get (asdict l) ''title'' = PStr (title l)"
  "dict_get (asdict l) ''description'' = opt_str (description l)"
  "dict_get (asdict l) ''epc'' = opt_str (epc l)"
  "dict_get (asdict l) ''epcRating'' = opt_str (epcRating l)"
  "dict_get (asdict l) ''agentPhone'' = opt_str (agentPhone l)"
  "dict_get (asdict l) ''postalCode'' = opt_str (postalCode l)"
  "dict_get (asdict l) ''features'' = PList (map PStr (features l))"
  "dict_get (asdict l) ''images'' = PList (map PStr (images l))"
  "dict_get (asdict l) ''coordinates'' =
     (case coordinates l of None \<Rightarrow> PNone
      | Some (lat, lon) \<Rightarrow> PDict [(''latitude'', PStr lat), (''longitude'', PStr lon)])"
  by (simp_all add: dict_get_def asdict_def)

lemma enrich_keeps_uprn: "uprn (enrich_from_detail_page E l soup) = uprn l"
  by (simp add: enrich_from_detail_page_def Let_def split: option.splits)

lemma process_card_scraped:
  assumes "process_card E s c w = (d, w')"
  shows "\<exists>l. d = asdict l \<and> uprn l = None"
proof -
  let ?l = "parse_listing_card E c s"
  have a: "uprn ?l = None" by (rule card_phase_fields)
  have b: "uprn (enrich_from_detail_page E ?l soup) = None" for soup
    by (simp add: enrich_keeps_uprn a)
  from assms have "d = asdict ?l \<or> (\<exists>soup. d = asdict (enrich_from_detail_page E ?l soup))"
    by (auto simp: process_card_def Let_def split: option.splits prod.splits if_splits)
  with a b show ?thesis by blast
qed

lemma scrape_cards_scraped:
  assumes "\<forall>d \<in> set acc. \<exists>l. d = asdict l \<and> uprn l = None"
  shows "\<forall>d \<in> set (fst (scrape_cards E s m cards w acc)). \<exists>l. d = asdict l \<and> uprn l = None"
  using assms
proof (induction cards arbitrary: w acc)
  case Nil
  then show ?case by simp
next
  case (Cons c cards)
  show ?case
  proof (cases "cap_reached m acc")
    case True
    then show ?thesis using Cons.prems by (simp add: scrape_cards_stop del: scrape_cards.simps(2))
  next
    case False
    obtain d w' where p: "process_card E s c w = (d, w')" by (cases "process_card E s c w")
    from process_card_scraped [OF p] Cons.prems
    have "\<forall>x \<in> set (acc @ [d]). \<exists>l. x = asdict l \<and> uprn l = None" by auto
    from Cons.IH [OF this, of w'] show ?thesis
      using False p by (simp add: scrape_cards_step del: scrape_cards.simps(2))
  qed
qed

lemma asdict_key:
  assumes "uprn l = None"
  shows "build_id_key r (asdict l) default_id_fields =
           (case url l of None \<Rightarrow> None | Some u \<Rightarrow> if u = [] then None else Some (''url:'' @ u))"
  using assms
  by (simp add: default_id_fields_def dict_get_asdict opt_str_def Let_def split: option.splits)

text \<open>
  Claim C10. Every listing that \<^const>\<open>scrape_search\<close> returns has \<^verbatim>\<open>None\<close> as its
  reference number, and its identity key under the default priority order is absent or is
  \<open>url:\<close> followed by its URL.
\<close>

theorem scrape_search_no_uprn:
  "\<forall>d \<in> set (fst (scrape_search E w search_url max_results)).
      dict_get d ''uprn'' = PNone \<and>
      (build_id_key r d default_id_fields = None \<or>
       (\<exists>u. dict_get d ''url'' = PStr u \<and>
            build_id_key r d default_id_fields = Some (''url:'' @ u)))"
proof
  fix d
  assume d: "d \<in> set (fst (scrape_search E w search_url max_results))"
  have "\<forall>d \<in> set (fst (scrape_search E w search_url max_results)).
          \<exists>l. d = asdict l \<and> uprn l = None"
  proof (cases "safe_get E w search_url")
    case (Pair r w')
    show ?thesis
    proof (cases r)
      case None
      with Pair show ?thesis by (simp add: scrape_search_def)
    next
      case (Some html)
      with Pair scrape_cards_scraped [of "[]" E search_url max_results
          "find_listing_cards (parse_html E html)" w']
      show ?thesis by (simp add: scrape_search_def)
    qed
  qed
  with d obtain l where l: "d = asdict l" "uprn l = None" by blast
  show "dict_get d ''uprn'' = PNone \<and>
      (build_id_key r d default_id_fields = None \<or>
       (\<exists>u. dict_get d ''url'' = PStr u \<and>
            build_id_key r d default_id_fields = Some (''url:'' @ u)))"
    using l asdict_key [OF l(2), of r]
    by (cases "url l") (auto simp: dict_get_asdict opt_str_def)
qed

theorem scrape_search_no_uprn_witness:
  "asdict (parse_listing_card example_env example_card ''https://z/s'')
     \<in> set (fst (scrape_search example_env 0 ''https://z/s'' None)) \<and>
   dict_get (asdict (parse_listing_card example_env example_card ''https://z/s'')) ''uprn''
     = PNone \<and>
   build_id_key (\<lambda>v. []) (asdict (parse_listing_card example_env example_card ''https://z/s''))
     default_id_fields = Some ''url:https://z/d/1''"
proof -
  have m: "fst (scrape_search example_env 0 ''https://z/s'' None) =
     [asdict (parse_listing_card example_env example_card ''https://z/s'')]"
    by code_simp
  then have mem: "asdict (parse_listing_card example_env example_card ''https://z/s'')
     \<in> set (fst (scrape_search example_env 0 ''https://z/s'' None))"
    by simp
  have k: "build_id_key (\<lambda>v. [])
     (asdict (parse_listing_card example_env example_card ''https://z/s''))
     default_id_fields = Some ''url:https://z/d/1''"
    by code_simp
  from scrape_search_no_uprn [THEN bspec, OF mem, of "\<lambda>v. []"]
  have "dict_get (asdict (parse_listing_card example_env example_card ''https://z/s'')) ''uprn''
     = PNone" by (rule conjunct1)
  with mem k show ?thesis by (intro conjI)
qed





















end
